theory Spec2Isabelle
  imports Complex_Main "HOL-Library.Word"
begin

unbundle bit_operations_syntax

section \<open>The data model of l7na/types.h\<close>

text \<open>
  The C++ integer types of the headers: \<open>int32_t\<close> and \<open>uint32_t\<close> are 32-bit words
  (read through \<open>sint\<close> where the source reads them signed), \<open>uint16_t\<close> and
  \<open>uint64_t\<close> are 16-bit and 64-bit words.
\<close>

type_synonym int32_t = "32 word"
type_synonym uint32_t = "32 word"
type_synonym uint16_t = "16 word"
type_synonym uint64_t = "64 word"

subsection \<open>Enumerator values\<close>

text \<open>
  A C++ enumerator with an initialiser has that value; one without has the value of the
  enumerator before it plus one (0 for the first). \<open>enum_values nxt decl\<close> runs this
  rule over a declaration, \<open>nxt\<close> being the value an enumerator without initialiser gets.
\<close>

fun enum_values :: "int \<Rightarrow> (string \<times> int option) list \<Rightarrow> (string \<times> int) list" where
  "enum_values nxt [] = []"
| "enum_values nxt ((n, None) # rest) = (n, nxt) # enum_values (nxt + 1) rest"
| "enum_values nxt ((n, Some v) # rest) = (n, v) # enum_values (v + 1) rest"

subsection \<open>Axis\<close>

text \<open>
  \<open>enum Axis : int32_t\<close> is unscoped and the example iterates over it with
  \<open>int32_t\<close> arithmetic, so an axis is an integer and the enumerators are constants.
\<close>

type_synonym Axis = int

definition Axis_decl :: "(string \<times> int option) list" where
  "Axis_decl =
     [(''AXIS_NONE'', Some (- 1)),
      (''AXIS_MIN'', Some 0),
      (''AZIMUTH_AXIS'', Some 0),
      (''ELEVATION_AXIS'', Some 1),
      (''AXIS_COUNT'', None)]"

definition Axis_enumerators :: "(string \<times> int) list" where
  "Axis_enumerators = enum_values 0 Axis_decl"

definition AXIS_NONE :: Axis where "AXIS_NONE = - 1"
definition AXIS_MIN :: Axis where "AXIS_MIN = 0"
definition AZIMUTH_AXIS :: Axis where "AZIMUTH_AXIS = 0"
definition ELEVATION_AXIS :: Axis where "ELEVATION_AXIS = 1"
definition AXIS_COUNT :: Axis where "AXIS_COUNT = ELEVATION_AXIS + 1"

subsection \<open>AxisState, ParamsMode, MoveMode, OperationMode\<close>

text \<open>
  \<open>enum AxisState : int32_t\<close> is unscoped with a fixed underlying type: a field of
  this type holds an \<open>int32_t\<close>, and the enumerators are seven named values of it.
\<close>

type_synonym AxisState = int

definition AxisState_decl :: "(string \<times> int option) list" where
  "AxisState_decl =
     [(''AXIS_DISABLED'', Some 0),
      (''AXIS_INIT'', None),
      (''AXIS_IDLE'', None),
      (''AXIS_ENABLED'', None),
      (''AXIS_STOP'', None),
      (''AXIS_WARNING'', None),
      (''AXIS_ERROR'', None)]"

definition AxisState_enumerators :: "(string \<times> int) list" where
  "AxisState_enumerators = enum_values 0 AxisState_decl"

definition AXIS_DISABLED :: AxisState where "AXIS_DISABLED = 0"
definition AXIS_INIT :: AxisState where "AXIS_INIT = AXIS_DISABLED + 1"
definition AXIS_IDLE :: AxisState where "AXIS_IDLE = AXIS_INIT + 1"
definition AXIS_ENABLED :: AxisState where "AXIS_ENABLED = AXIS_IDLE + 1"
definition AXIS_STOP :: AxisState where "AXIS_STOP = AXIS_ENABLED + 1"
definition AXIS_WARNING :: AxisState where "AXIS_WARNING = AXIS_STOP + 1"
definition AXIS_ERROR :: AxisState where "AXIS_ERROR = AXIS_WARNING + 1"

datatype ParamsMode = PARAMS_MODE_AUTOMATIC | PARAMS_MODE_MANUAL

type_synonym MoveMode = uint16_t

datatype OperationMode = OP_MODE_NOT_SET | OP_MODE_POINT | OP_MODE_SCAN

fun OperationMode_raw :: "OperationMode \<Rightarrow> uint16_t" where
  "OperationMode_raw OP_MODE_NOT_SET = 0"
| "OperationMode_raw OP_MODE_POINT = 1"
| "OperationMode_raw OP_MODE_SCAN = 3"

subsection \<open>AxisStatus, SystemState, SystemStatus\<close>

text \<open>
  The six \<open>double\<close> fields of \<open>AxisStatus\<close> are carried as reals: the headers and
  the example only store and print them.
\<close>

record AxisStatus =
  tgt_pos_deg :: real
  cur_pos_deg :: real
  dmd_pos_deg :: real
  tgt_vel_deg :: real
  cur_vel_deg :: real
  dmd_vel_deg :: real
  cur_pos_abs :: int32_t
  cur_pos :: int32_t
  dmd_pos :: int32_t
  tgt_pos :: int32_t
  cur_vel :: int32_t
  dmd_vel :: int32_t
  tgt_vel :: int32_t
  cur_torq :: int32_t
  state :: AxisState
  error_code :: uint32_t
  cur_temperature0 :: int32_t
  cur_temperature1 :: int32_t
  cur_temperature2 :: int32_t
  ctrlword :: uint16_t
  statusword :: uint16_t
  mode :: OperationMode
  move_mode :: MoveMode
  params_mode :: ParamsMode

datatype SystemState =
    SYSTEM_OFF
  | SYSTEM_INIT
  | SYSTEM_READY
  | SYSTEM_PROCESSING
  | SYSTEM_WARNING
  | SYSTEM_ERROR
  | SYSTEM_FATAL_ERROR

fun SystemState_raw :: "SystemState \<Rightarrow> int" where
  "SystemState_raw SYSTEM_OFF = - 1"
| "SystemState_raw SYSTEM_INIT = 0"
| "SystemState_raw SYSTEM_READY = 1"
| "SystemState_raw SYSTEM_PROCESSING = 2"
| "SystemState_raw SYSTEM_WARNING = 3"
| "SystemState_raw SYSTEM_ERROR = 4"
| "SystemState_raw SYSTEM_FATAL_ERROR = 5"

text \<open>\<open>AxisStatus axes[AXIS_COUNT]\<close>: a list, indexed by the axis.\<close>

record SystemStatus =
  axes :: "AxisStatus list"
  state :: SystemState
  reftime :: uint64_t
  apptime :: uint64_t
  dcsync :: uint32_t

subsection \<open>AxisInfo, SystemInfo\<close>

record AxisInfo =
  encoder_pulses_per_rev :: uint32_t
  dev_name :: string
  hw_version :: string
  sw_version :: string

text \<open>The constructor \<open>AxisInfo()\<close>.\<close>

definition AxisInfo_ctor :: AxisInfo where
  "AxisInfo_ctor =
     \<lparr>encoder_pulses_per_rev = 0, dev_name = [], hw_version = [], sw_version = []\<rparr>"

text \<open>\<open>SystemInfo()\<close> default-constructs \<open>AxisInfo axes[AXIS_COUNT]\<close>.\<close>

record SystemInfo =
  info_axes :: "AxisInfo list"

definition SystemInfo_ctor :: SystemInfo where
  "SystemInfo_ctor = \<lparr>info_axes = replicate (nat AXIS_COUNT) AxisInfo_ctor\<rparr>"

subsection \<open>CycleTimeInfo\<close>

record CycleTimeInfo =
  period_ns :: uint64_t
  exec_ns :: uint64_t
  latency_ns :: uint64_t
  latency_min_ns :: uint64_t
  latency_max_ns :: uint64_t
  period_min_ns :: uint64_t
  period_max_ns :: uint64_t
  exec_min_ns :: uint64_t
  exec_max_ns :: uint64_t

text \<open>
  \<open>std::numeric_limits<uint64_t>::max()\<close> is \<open>2 ^ 64 - 1\<close>, the word of all ones.
\<close>

definition uint64_max :: uint64_t where
  "uint64_max = word_of_nat (2 ^ 64 - 1)"

text \<open>The constructor \<open>CycleTimeInfo()\<close>, initialiser by initialiser.\<close>

definition CycleTimeInfo_ctor :: CycleTimeInfo where
  "CycleTimeInfo_ctor =
     \<lparr>period_ns = 0,
      exec_ns = 0,
      latency_ns = 0,
      latency_min_ns = uint64_max,
      latency_max_ns = 0,
      period_min_ns = uint64_max,
      period_max_ns = 0,
      exec_min_ns = uint64_max,
      exec_max_ns = 0\<rparr>"

section \<open>The control interface of l7na/drives.h\<close>



datatype Control_AxisState =
    AxisState_AXIS_OFF
  | AxisState_AXIS_INIT
  | AxisState_AXIS_IDLE
  | AxisState_AXIS_SCAN
  | AxisState_AXIS_POINT
  | AxisState_AXIS_ERROR


record Control_AxisStatus =
  target_position :: int32_t
  cur_position :: int32_t
  demand_position :: int32_t
  target_velocity :: int32_t
  cur_velocity :: int32_t
  demand_velocity :: int32_t
  cur_torque :: int32_t
  state :: Control_AxisState
  error_code :: uint32_t
  statusword :: uint16_t

text \<open>
  The constructor \<open>AxisStatus()\<close> of drives.h has no initialiser for \<open>statusword\<close>:
  the field keeps whatever the storage held, the parameter \<open>sw\<close>.
\<close>

definition Control_AxisStatus_ctor :: "uint16_t \<Rightarrow> Control_AxisStatus" where
  "Control_AxisStatus_ctor sw =
     \<lparr>target_position = 0,
      cur_position = 0,
      demand_position = 0,
      target_velocity = 0,
      cur_velocity = 0,
      demand_velocity = 0,
      cur_torque = 0,
      state = AxisState_AXIS_OFF,
      error_code = 0,
      statusword = sw\<rparr>"

datatype Control_SystemState =
    SystemState_SYSTEM_OFF
  | SystemState_SYSTEM_OK
  | SystemState_SYSTEM_INIT
  | SystemState_SYSTEM_ERROR

fun Control_SystemState_raw :: "Control_SystemState \<Rightarrow> int" where
  "Control_SystemState_raw SystemState_SYSTEM_OFF = - 1"
| "Control_SystemState_raw SystemState_SYSTEM_OK = 0"
| "Control_SystemState_raw SystemState_SYSTEM_INIT = 1"
| "Control_SystemState_raw SystemState_SYSTEM_ERROR = 2"

record Control_SystemStatus =
  azimuth :: Control_AxisStatus
  elevation :: Control_AxisStatus
  state :: Control_SystemState
  error_str :: string

text \<open>
  The constructor \<open>SystemStatus()\<close> of drives.h: \<open>azimuth()\<close>, \<open>elevation()\<close>,
  \<open>state(SystemState::SYSTEM_OFF)\<close>, \<open>error_str()\<close>. The two parameters are the
  uninitialised statuswords of the two axes.
\<close>

definition Control_SystemStatus_ctor :: "uint16_t \<Rightarrow> uint16_t \<Rightarrow> Control_SystemStatus" where
  "Control_SystemStatus_ctor sw_az sw_el =
     \<lparr>azimuth = Control_AxisStatus_ctor sw_az,
      elevation = Control_AxisStatus_ctor sw_el,
      state = SystemState_SYSTEM_OFF,
      error_str = []\<rparr>"

subsection \<open>The member functions of Control\<close>

text \<open>
  The public member functions of \<open>class Control\<close> as drives.h declares them, each with
  its parameters in order, name and type:
  \<^verbatim>\<open>void SetModeRun(int32_t azimuth_angle, int32_t azimuth_velocity,
                  int32_t elevation_angle, int32_t elevation_velocity);
  void SetModeIdle(bool azimuth_flag, bool elevation_flag);
  const std::atomic<SystemStatus>& GetStatus() const;
  const std::atomic<SystemInfo>& GetSystemInfo() const;\<close>
  \<open>T_Axis\<close> is the type \<open>Axis\<close> of types.h, which no parameter of drives.h has.
\<close>

datatype ctype = T_int32 | T_bool | T_Axis

definition Control_methods :: "(string \<times> (string \<times> ctype) list) list" where
  "Control_methods =
     [(''SetModeRun'',
         [(''azimuth_angle'', T_int32), (''azimuth_velocity'', T_int32),
          (''elevation_angle'', T_int32), (''elevation_velocity'', T_int32)]),
      (''SetModeIdle'', [(''azimuth_flag'', T_bool), (''elevation_flag'', T_bool)]),
      (''GetStatus'', []),
      (''GetSystemInfo'', [])]"

definition param_types ::
  "(string \<times> (string \<times> ctype) list) list \<Rightarrow> string \<Rightarrow> ctype list option" where
  "param_types decls f = map_option (map snd) (map_of decls f)"

text \<open>
  The command surface in the words of the spec, to set beside the declarations:
  \<open>SetModeRun(axis, position_pulses, velocity_pulses_per_s)\<close>, \<open>SetModeIdle(axis)\<close>,
  \<open>GetStatus()\<close>, \<open>GetSystemInfo()\<close>.
\<close>

definition Control_methods_spec :: "(string \<times> (string \<times> ctype) list) list" where
  "Control_methods_spec =
     [(''SetModeRun'',
         [(''axis'', T_Axis), (''position_pulses'', T_int32),
          (''velocity_pulses_per_s'', T_int32)]),
      (''SetModeIdle'', [(''axis'', T_Axis)]),
      (''GetStatus'', []),
      (''GetSystemInfo'', [])]"

text \<open>A call as a caller writes it: the member function's name and its arguments.\<close>

datatype carg = Arg_Axis Axis | Arg_int32 int32_t

datatype call = Call string "carg list"

section \<open>The command loop of utils/example.cpp\<close>

record Command =
  axis :: Axis
  pos :: int32_t
  vel :: int32_t
  idle :: bool

definition Command_ctor :: Command where
  "Command_ctor = \<lparr>axis = AZIMUTH_AXIS, pos = 0, vel = 0, idle = False\<rparr>"

text \<open>
  \<open>boost::tokenizer\<close> with \<open>char_separator<char> sep(" ")\<close>: the tokens are the
  maximal runs of characters other than the space; empty tokens are dropped. \<open>cur\<close>
  is the token being read.
\<close>

fun tokens_from :: "string \<Rightarrow> string \<Rightarrow> string list" where
  "tokens_from cur [] = (if cur = [] then [] else [cur])"
| "tokens_from cur (c # cs) =
     (if c = CHR '' ''
      then (if cur = [] then tokens_from [] cs else cur # tokens_from [] cs)
      else tokens_from (cur @ [c]) cs)"

definition tokenize :: "string \<Rightarrow> string list" where
  "tokenize cmd_str = tokens_from [] cmd_str"

text \<open>
  \<open>parse_args\<close> writes into \<open>result\<close> and returns a \<open>bool\<close>: the model returns
  both. The branches for \<open>"a"\<close> and \<open>"e"\<close> have the same text after the assignment
  to \<open>result.axis\<close>; \<open>parse_axis_args\<close> is that text. \<open>atoi\<close> is the C library's,
  a parameter here. \<open>cmd_vec[0]\<close> on an empty vector (a line of spaces only) is an
  out-of-range read: \<open>Inl OutOfRange\<close>.
\<close>

datatype fault = OutOfRange

definition parse_axis_args ::
  "(string \<Rightarrow> int32_t) \<Rightarrow> string list \<Rightarrow> Command \<Rightarrow> bool \<times> Command" where
  "parse_axis_args atoi cmd_vec result =
     (if length cmd_vec < 2 then (False, result)
      else if cmd_vec ! 1 = ''v'' then
        (if length cmd_vec < 3 then (False, result)
         else (True, result\<lparr>vel := atoi (cmd_vec ! 2)\<rparr>))
      else if cmd_vec ! 1 = ''p'' then
        (if length cmd_vec < 3 then (False, result)
         else (True, result\<lparr>pos := atoi (cmd_vec ! 2)\<rparr>))
      else if cmd_vec ! 1 = ''i'' then (True, result\<lparr>idle := True\<rparr>)
      else (True, result))"

definition parse_args ::
  "(string \<Rightarrow> int32_t) \<Rightarrow> string \<Rightarrow> Command \<Rightarrow> fault + bool \<times> Command" where
  "parse_args atoi cmd_str result =
     (let cmd_vec = tokenize cmd_str in
      if cmd_vec = [] then Inl OutOfRange
      else if cmd_vec ! 0 = ''a'' then
        Inr (parse_axis_args atoi cmd_vec (result\<lparr>axis := AZIMUTH_AXIS\<rparr>))
      else if cmd_vec ! 0 = ''e'' then
        Inr (parse_axis_args atoi cmd_vec (result\<lparr>axis := ELEVATION_AXIS\<rparr>))
      else Inr (False, result))"

text \<open>
  The call \<open>main\<close> makes for a parsed command:
  \<^verbatim>\<open>if (cmd.idle) { control.SetModeIdle(cmd.axis); }
  else { control.SetModeRun(cmd.axis, cmd.pos, cmd.vel); }\<close>
\<close>

definition submit :: "Command \<Rightarrow> call" where
  "submit cmd =
     (if idle cmd then Call ''SetModeIdle'' [Arg_Axis (axis cmd)]
      else Call ''SetModeRun'' [Arg_Axis (axis cmd), Arg_int32 (pos cmd), Arg_int32 (vel cmd)])"

text \<open>One turn of the \<open>while (true)\<close> loop of \<open>main\<close> on the line read.\<close>

datatype action =
    Quit
  | PrintCommands
  | PrintStatus
  | PrintInfo
  | Continue
  | Fault fault
  | Submit call

definition main_step :: "(string \<Rightarrow> int32_t) \<Rightarrow> string \<Rightarrow> action" where
  "main_step atoi cmd_str =
     (if cmd_str = ''q'' then Quit
      else if cmd_str = ''h'' \<or> cmd_str = ''help'' then PrintCommands
      else if cmd_str = ''s'' then PrintStatus
      else if cmd_str = ''i'' then PrintInfo
      else if cmd_str = [] then Continue
      else (case parse_args atoi cmd_str Command_ctor of
              Inl f \<Rightarrow> Fault f
            | Inr (ok, cmd) \<Rightarrow> if \<not> ok then Continue else Submit (submit cmd)))"

text \<open>
  The loop of \<open>print_status\<close>, \<open>print_status_cerr\<close> and \<open>print_info\<close>:
  \<^verbatim>\<open>for (int32_t axis = Drives::AXIS_MIN; axis < Drives::AXIS_COUNT; ++axis) { ... }\<close>
  with the body as a function of the axis and of what has been printed so far;
  \<open>axis_loop body ax s\<close> is the loop entered with the counter \<open>axis\<close> at \<open>ax\<close>.
\<close>

function axis_loop :: "(Axis \<Rightarrow> 's \<Rightarrow> 's) \<Rightarrow> Axis \<Rightarrow> 's \<Rightarrow> 's" where
  "axis_loop body ax s =
     (if ax < AXIS_COUNT then axis_loop body (ax + 1) (body ax s) else s)"
  by pat_completeness auto
termination
  by (relation "measure (\<lambda>(body, ax, s). nat (AXIS_COUNT - ax))") auto

definition for_each_axis :: "(Axis \<Rightarrow> 's \<Rightarrow> 's) \<Rightarrow> 's \<Rightarrow> 's" where
  "for_each_axis body s = axis_loop body AXIS_MIN s"

section \<open>Parts of the core that the headers only declare\<close>

subsection \<open>Statusword decoding\<close>

text \<open>
  Modelled from the spec: the axis state driver that decodes the statusword is not in
  the sources. Its table maps \<open>statusword & 0x6F\<close> to an axis state in eight rows; a
  masked value with no row has no state in the table.
\<close>

definition axis_state_of_statusword :: "uint16_t \<Rightarrow> AxisState option" where
  "axis_state_of_statusword sw =
     (let m = sw AND 0x6F in
      if m = 0x00 then Some AXIS_DISABLED
      else if m = 0x40 then Some AXIS_DISABLED
      else if m = 0x21 then Some AXIS_INIT
      else if m = 0x23 then Some AXIS_IDLE
      else if m = 0x27 then Some AXIS_ENABLED
      else if m = 0x07 then Some AXIS_STOP
      else if m = 0x0F then Some AXIS_ERROR
      else if m = 0x08 then Some AXIS_ERROR
      else None)"

subsection \<open>Command normalisation\<close>

text \<open>
  Modelled from the spec: the mode controller behind \<open>Control::SetModeRun\<close> and
  \<open>Control::SetModeIdle\<close> is not in the sources (drives.h holds the class with a
  private \<open>Impl\<close>). Command ingress normalises a command thus: idle requests IDLE with
  operation mode NOT_SET; velocity 0 and not idle is POINT mode with the target position
  the commanded one and the target velocity the magnitude of the default profile
  velocity; a velocity other than 0 and not idle is SCAN mode with the target velocity
  the commanded one, the position playing no part. \<open>dpv\<close> is the default profile
  velocity, a configuration value.
\<close>

datatype Setpoint =
    SET_IDLE
  | SET_POINT int32_t int32_t
  | SET_SCAN int32_t

definition abs_int32 :: "int32_t \<Rightarrow> int32_t" where
  "abs_int32 v = (if sint v < 0 then - v else v)"

definition normalise_command :: "int32_t \<Rightarrow> Command \<Rightarrow> Setpoint" where
  "normalise_command dpv c =
     (if idle c then SET_IDLE
      else if vel c = 0 then SET_POINT (pos c) (abs_int32 dpv)
      else SET_SCAN (vel c))"

fun Setpoint_mode :: "Setpoint \<Rightarrow> OperationMode" where
  "Setpoint_mode SET_IDLE = OP_MODE_NOT_SET"
| "Setpoint_mode (SET_POINT p v) = OP_MODE_POINT"
| "Setpoint_mode (SET_SCAN v) = OP_MODE_SCAN"

text \<open>
  Modelled from the spec: the sign conventions of the mode controller (not in the
  sources; the comment on \<open>Control::SetModeRun\<close> in drives.h states the same). For
  azimuth a positive velocity turns clockwise, otherwise counter-clockwise; for elevation
  a positive velocity raises the antenna, otherwise lowers it.
\<close>

datatype Rotation = CLOCKWISE | COUNTER_CLOCKWISE | RAISING | LOWERING

definition scan_direction :: "Axis \<Rightarrow> int32_t \<Rightarrow> Rotation option" where
  "scan_direction a v =
     (if a = AZIMUTH_AXIS then Some (if 0 < sint v then CLOCKWISE else COUNTER_CLOCKWISE)
      else if a = ELEVATION_AXIS then Some (if 0 < sint v then RAISING else LOWERING)
      else None)"

subsection \<open>Degrees and encoder pulses\<close>

text \<open>
  Modelled from the spec: the conversions between encoder pulses and degrees are not in
  the sources (types.h only holds \<open>encoder_pulses_per_rev\<close> and the fields in both
  units). The data model gives \<open>pulses_per_degree = encoder_pulses_per_rev / 360\<close>,
  pulses to degrees as the division by it and degrees to pulses as the multiplication
  by it, rounded toward zero. The arithmetic is exact here (reals and integers): the
  rounding of \<open>double\<close> and the range of \<open>int32_t\<close> are not part of the model. A
  division by a zero \<open>pulses_per_degree\<close> is the error \<open>DivisionByZero\<close>.
\<close>

datatype conv_error = DivisionByZero

definition pulses_per_degree :: "AxisInfo \<Rightarrow> real" where
  "pulses_per_degree info = real (unat (encoder_pulses_per_rev info)) / 360"

definition pulses_to_deg :: "AxisInfo \<Rightarrow> int \<Rightarrow> conv_error + real" where
  "pulses_to_deg info p =
     (if pulses_per_degree info = 0 then Inl DivisionByZero
      else Inr (real_of_int p / pulses_per_degree info))"

definition round_toward_zero :: "real \<Rightarrow> int" where
  "round_toward_zero x = (if 0 \<le> x then \<lfloor>x\<rfloor> else \<lceil>x\<rceil>)"

definition deg_to_pulses :: "AxisInfo \<Rightarrow> real \<Rightarrow> int" where
  "deg_to_pulses info d = round_toward_zero (d * pulses_per_degree info)"

section \<open>Theorems\<close>

subsection \<open>Axis states\<close>

lemma AxisState_enumerators_eq:
  "AxisState_enumerators =
     [(''AXIS_DISABLED'', 0), (''AXIS_INIT'', 1), (''AXIS_IDLE'', 2), (''AXIS_ENABLED'', 3),
      (''AXIS_STOP'', 4), (''AXIS_WARNING'', 5), (''AXIS_ERROR'', 6)]"
  by (simp add: AxisState_enumerators_def AxisState_decl_def)

lemma AxisState_values:
  "AXIS_DISABLED = 0" "AXIS_INIT = 1" "AXIS_IDLE = 2" "AXIS_ENABLED = 3" "AXIS_STOP = 4"
  "AXIS_WARNING = 5" "AXIS_ERROR = 6"
  by (simp_all add: AXIS_DISABLED_def AXIS_INIT_def AXIS_IDLE_def AXIS_ENABLED_def
      AXIS_STOP_def AXIS_WARNING_def AXIS_ERROR_def)




text \<open>
  The decoding table reads the statusword through the mask \<open>0x6F\<close> only, whose set
  bits are 0, 1, 2, 3, 5 and 6: two statuswords that agree on these bits decode alike.
  What it yields is one of the seven enumerators, and never WARNING.
\<close>

lemma mask_0x6F: "(0x6F :: uint16_t) = mask 4 OR push_bit 5 (mask 2)"
  by (simp add: mask_eq_exp_minus_1 push_bit_eq_mult)

lemma bit_0x6F: "bit (0x6F :: uint16_t) n \<longleftrightarrow> n \<in> {0, 1, 2, 3, 5, 6}"
proof -
  have "bit (0x6F :: uint16_t) n \<longleftrightarrow> n < 4 \<or> (5 \<le> n \<and> n < 7)"
    unfolding mask_0x6F by (auto simp: bit_simps)
  also have "\<dots> \<longleftrightarrow> n \<in> {0, 1, 2, 3, 5, 6}"
    by auto
  finally show ?thesis .
qed

lemma and_0x6F_bits:
  fixes a b :: uint16_t
  assumes "bit a 0 = bit b 0" "bit a 1 = bit b 1" "bit a 2 = bit b 2"
    "bit a 3 = bit b 3" "bit a 5 = bit b 5" "bit a 6 = bit b 6"
  shows "a AND 0x6F = b AND 0x6F"
proof (rule bit_eqI)
  fix n
  show "bit (a AND 0x6F) n = bit (b AND 0x6F) n"
  proof (cases "n \<in> {0, 1, 2, 3, 5, 6}")
    case True
    then have "bit a n = bit b n"
      using assms by auto
    then show ?thesis
      by (simp only: bit_and_iff)
  next
    case False
    then have "\<not> bit (0x6F :: uint16_t) n"
      by (simp only: bit_0x6F not_False_eq_True)
    then show ?thesis
      by (simp only: bit_and_iff simp_thms)
  qed
qed

lemma axis_state_of_statusword_bits:
  fixes a b :: uint16_t
  assumes "bit a 0 = bit b 0" "bit a 1 = bit b 1" "bit a 2 = bit b 2"
    "bit a 3 = bit b 3" "bit a 5 = bit b 5" "bit a 6 = bit b 6"
  shows "axis_state_of_statusword a = axis_state_of_statusword b"
  using and_0x6F_bits [OF assms] by (simp add: axis_state_of_statusword_def)

lemma axis_state_of_statusword_examples:
  "axis_state_of_statusword 0x0250 = Some AXIS_DISABLED"
  "axis_state_of_statusword 0x0231 = Some AXIS_INIT"
  "axis_state_of_statusword 0x0233 = Some AXIS_IDLE"
  "axis_state_of_statusword 0x0237 = Some AXIS_ENABLED"
  "axis_state_of_statusword 0x0008 = Some AXIS_ERROR"
  "axis_state_of_statusword 0x0001 = None"
  by (simp_all add: axis_state_of_statusword_def)

lemma axis_state_of_statusword_range:
  assumes "axis_state_of_statusword sw = Some s"
  shows "s \<in> set (map snd AxisState_enumerators)" and "s \<noteq> AXIS_WARNING"
  using assms
  by (auto simp add: axis_state_of_statusword_def Let_def AxisState_enumerators_eq
      AxisState_values split: if_splits)

subsection \<open>The command surface\<close>

lemma parse_axis_args_axis:
  "parse_axis_args atoi cmd_vec result = (ok, cmd) \<Longrightarrow> axis cmd = axis result"
  by (auto simp add: parse_axis_args_def split: if_splits)

lemma parse_args_axis:
  assumes "parse_args atoi cmd_str result = Inr (True, cmd)"
  shows "axis cmd = AZIMUTH_AXIS \<or> axis cmd = ELEVATION_AXIS"
  using assms
  by (auto simp add: parse_args_def Let_def split: if_splits dest: parse_axis_args_axis)

text \<open>
  Every call the example's command loop submits names one axis, azimuth or elevation:
  it is \<open>SetModeIdle(axis)\<close> or \<open>SetModeRun(axis, pos, vel)\<close>.
\<close>

lemma main_step_single_axis:
  assumes "main_step atoi cmd_str = Submit c"
  shows "\<exists>a p v. (a = AZIMUTH_AXIS \<or> a = ELEVATION_AXIS)
           \<and> (c = Call ''SetModeIdle'' [Arg_Axis a]
              \<or> c = Call ''SetModeRun'' [Arg_Axis a, Arg_int32 p, Arg_int32 v])"
proof -
  from assms obtain cmd where p: "parse_args atoi cmd_str Command_ctor = Inr (True, cmd)"
    and c: "c = submit cmd"
    by (auto simp add: main_step_def split: if_splits sum.splits)
  from parse_args_axis [OF p] c show ?thesis
    by (auto simp add: submit_def)
qed

text \<open>
  The member functions drives.h declares do not take one target axis: \<open>SetModeRun\<close>
  has four \<open>int32_t\<close> parameters, the angle and the velocity of azimuth and of
  elevation, and \<open>SetModeIdle\<close> has two \<open>bool\<close> flags, one per axis. Neither list is
  the one the spec words, and no parameter has the type \<open>Axis\<close>.
\<close>

theorem C3_declared_calls_take_both_axes:
  "param_types Control_methods ''SetModeRun'' = Some [T_int32, T_int32, T_int32, T_int32]
   \<and> param_types Control_methods_spec ''SetModeRun'' = Some [T_Axis, T_int32, T_int32]
   \<and> param_types Control_methods ''SetModeRun'' \<noteq> param_types Control_methods_spec ''SetModeRun''
   \<and> param_types Control_methods ''SetModeIdle'' = Some [T_bool, T_bool]
   \<and> param_types Control_methods_spec ''SetModeIdle'' = Some [T_Axis]
   \<and> param_types Control_methods ''SetModeIdle'' \<noteq> param_types Control_methods_spec ''SetModeIdle''"
  by (simp add: param_types_def Control_methods_def Control_methods_spec_def)

text \<open>
  Claim C3, amended. The command surface drives.h declares consists of
  \<open>SetModeRun\<close>, \<open>SetModeIdle\<close>, \<open>GetStatus()\<close> and \<open>GetSystemInfo()\<close>;
  \<open>SetModeRun\<close> takes an angle and a velocity for azimuth and for elevation, and
  \<open>SetModeIdle\<close> a flag for azimuth and for elevation. Every movement or idle command
  the example's command loop submits addresses a single axis, azimuth or elevation: it
  is \<open>SetModeIdle(axis)\<close> or \<open>SetModeRun(axis, pos, vel)\<close>.
\<close>

theorem C3_command_surface:
  "map fst Control_methods = [''SetModeRun'', ''SetModeIdle'', ''GetStatus'', ''GetSystemInfo'']
   \<and> map_of Control_methods ''SetModeRun'' =
       Some [(''azimuth_angle'', T_int32), (''azimuth_velocity'', T_int32),
             (''elevation_angle'', T_int32), (''elevation_velocity'', T_int32)]
   \<and> map_of Control_methods ''SetModeIdle'' =
       Some [(''azimuth_flag'', T_bool), (''elevation_flag'', T_bool)]
   \<and> map_of Control_methods ''GetStatus'' = Some []
   \<and> map_of Control_methods ''GetSystemInfo'' = Some []
   \<and> (main_step atoi cmd_str = Submit c \<longrightarrow>
        (\<exists>a p v. (a = AZIMUTH_AXIS \<or> a = ELEVATION_AXIS)
           \<and> (c = Call ''SetModeIdle'' [Arg_Axis a]
              \<or> c = Call ''SetModeRun'' [Arg_Axis a, Arg_int32 p, Arg_int32 v])))"
  using main_step_single_axis [of atoi cmd_str c]
  by (simp add: Control_methods_def)

text \<open>
  The claim at the lines \<open>e i\<close> and \<open>a p 524288\<close> typed at the example's prompt,
  the second with an \<open>atoi\<close> that reads 524288: the loop submits
  \<open>SetModeIdle(ELEVATION_AXIS)\<close> and \<open>SetModeRun(AZIMUTH_AXIS, 524288, 0)\<close>.
\<close>

theorem C3_command_surface_witness:
  "main_step (\<lambda>s. 0) ''e i'' = Submit (Call ''SetModeIdle'' [Arg_Axis ELEVATION_AXIS])
   \<and> (\<exists>a p v. (a = AZIMUTH_AXIS \<or> a = ELEVATION_AXIS)
         \<and> (Call ''SetModeIdle'' [Arg_Axis ELEVATION_AXIS] = Call ''SetModeIdle'' [Arg_Axis a]
            \<or> Call ''SetModeIdle'' [Arg_Axis ELEVATION_AXIS] =
                Call ''SetModeRun'' [Arg_Axis a, Arg_int32 p, Arg_int32 v]))
   \<and> main_step (\<lambda>s. 524288) ''a p 524288'' =
       Submit (Call ''SetModeRun'' [Arg_Axis AZIMUTH_AXIS, Arg_int32 524288, Arg_int32 0])
   \<and> (\<exists>a p v. (a = AZIMUTH_AXIS \<or> a = ELEVATION_AXIS)
         \<and> (Call ''SetModeRun'' [Arg_Axis AZIMUTH_AXIS, Arg_int32 524288, Arg_int32 0] =
              Call ''SetModeIdle'' [Arg_Axis a]
            \<or> Call ''SetModeRun'' [Arg_Axis AZIMUTH_AXIS, Arg_int32 524288, Arg_int32 0] =
                Call ''SetModeRun'' [Arg_Axis a, Arg_int32 p, Arg_int32 v]))"
proof -
  have idle_line:
    "main_step (\<lambda>s. 0) ''e i'' = Submit (Call ''SetModeIdle'' [Arg_Axis ELEVATION_AXIS])"
    by (simp add: main_step_def parse_args_def parse_axis_args_def tokenize_def submit_def
        Command_ctor_def)
  have run_line:
    "main_step (\<lambda>s. 524288) ''a p 524288'' =
       Submit (Call ''SetModeRun'' [Arg_Axis AZIMUTH_AXIS, Arg_int32 524288, Arg_int32 0])"
    by (simp add: main_step_def parse_args_def parse_axis_args_def tokenize_def submit_def
        Command_ctor_def)
  show ?thesis
    using idle_line run_line
      C3_command_surface [of "\<lambda>s. 0" "''e i''"
        "Call ''SetModeIdle'' [Arg_Axis ELEVATION_AXIS]"]
      C3_command_surface [of "\<lambda>s. 524288" "''a p 524288''"
        "Call ''SetModeRun'' [Arg_Axis AZIMUTH_AXIS, Arg_int32 524288, Arg_int32 0]"]
    by simp
qed

subsection \<open>Command normalisation\<close>

text \<open>
  Claim C4. For a command with \<open>idle = false\<close>: a velocity of 0 gives POINT mode with
  the target position the commanded position; a velocity other than 0 gives SCAN mode
  with the target velocity the commanded velocity, whatever the commanded position, and
  the sign of the velocity gives the direction on either axis.
\<close>

theorem C4_run_command:
  assumes "\<not> idle c"
  shows "(vel c = 0 \<longrightarrow>
            normalise_command dpv c = SET_POINT (pos c) (abs_int32 dpv)
            \<and> Setpoint_mode (normalise_command dpv c) = OP_MODE_POINT)
     \<and> (vel c \<noteq> 0 \<longrightarrow>
            normalise_command dpv c = SET_SCAN (vel c)
            \<and> Setpoint_mode (normalise_command dpv c) = OP_MODE_SCAN
            \<and> normalise_command dpv (c\<lparr>pos := p\<rparr>) = normalise_command dpv c
            \<and> scan_direction AZIMUTH_AXIS (vel c) =
                Some (if 0 < sint (vel c) then CLOCKWISE else COUNTER_CLOCKWISE)
            \<and> scan_direction ELEVATION_AXIS (vel c) =
                Some (if 0 < sint (vel c) then RAISING else LOWERING))"
  using assms
  by (simp add: normalise_command_def scan_direction_def AZIMUTH_AXIS_def ELEVATION_AXIS_def)

text \<open>
  The claim at a point command (position 524288, velocity 0) and at a scan command
  (velocity -100000, position 7): the scan setpoint is the same for position 0.
\<close>

theorem C4_run_command_witness:
  "\<not> idle \<lparr>axis = AZIMUTH_AXIS, pos = 524288, vel = 0, idle = False\<rparr>
   \<and> normalise_command 20000 \<lparr>axis = AZIMUTH_AXIS, pos = 524288, vel = 0, idle = False\<rparr>
       = SET_POINT 524288 20000
   \<and> \<not> idle \<lparr>axis = AZIMUTH_AXIS, pos = 7, vel = - 100000, idle = False\<rparr>
   \<and> normalise_command 20000 \<lparr>axis = AZIMUTH_AXIS, pos = 7, vel = - 100000, idle = False\<rparr>
       = SET_SCAN (- 100000)
   \<and> normalise_command 20000 \<lparr>axis = AZIMUTH_AXIS, pos = 0, vel = - 100000, idle = False\<rparr>
       = SET_SCAN (- 100000)
   \<and> scan_direction AZIMUTH_AXIS (- 100000) = Some COUNTER_CLOCKWISE"
  using C4_run_command
      [of "\<lparr>axis = AZIMUTH_AXIS, pos = 524288, vel = 0, idle = False\<rparr>" 20000 0]
    C4_run_command
      [of "\<lparr>axis = AZIMUTH_AXIS, pos = 7, vel = - 100000, idle = False\<rparr>" 20000 0]
  by (simp add: abs_int32_def)

subsection \<open>Degrees and encoder pulses\<close>

lemma round_toward_zero_of_int: "round_toward_zero (real_of_int p) = p"
  by (simp add: round_toward_zero_def)

lemma round_toward_zero_magnitude:
  "\<bar>real_of_int (round_toward_zero x)\<bar> \<le> \<bar>x\<bar>"
proof (cases "0 \<le> x")
  case True
  then have "0 \<le> real_of_int \<lfloor>x\<rfloor>" "real_of_int \<lfloor>x\<rfloor> \<le> x"
    by simp_all
  with True show ?thesis
    by (simp add: round_toward_zero_def)
next
  case False
  then have "x \<le> real_of_int \<lceil>x\<rceil>" "real_of_int \<lceil>x\<rceil> \<le> 0"
    by (simp_all add: ceiling_le_iff)
  with False show ?thesis
    by (simp add: round_toward_zero_def)
qed

lemma round_toward_zero_sign:
  "0 \<le> real_of_int (round_toward_zero x) * x"
proof (cases "0 \<le> x")
  case True
  then have "0 \<le> real_of_int \<lfloor>x\<rfloor>"
    by simp
  with True show ?thesis
    by (simp add: round_toward_zero_def)
next
  case False
  then have "real_of_int \<lceil>x\<rceil> \<le> 0"
    by (simp add: ceiling_le_iff)
  with False show ?thesis
    by (simp add: round_toward_zero_def mult_nonpos_nonpos)
qed

lemma round_toward_zero_close:
  "\<bar>real_of_int (round_toward_zero x) - x\<bar> < 1"
proof (cases "0 \<le> x")
  case True
  have "real_of_int \<lfloor>x\<rfloor> \<le> x" "x < real_of_int \<lfloor>x\<rfloor> + 1"
    by linarith+
  then have "\<bar>real_of_int \<lfloor>x\<rfloor> - x\<bar> < 1"
    by linarith
  with True show ?thesis
    by (simp only: round_toward_zero_def if_True)
next
  case False
  have "x \<le> real_of_int \<lceil>x\<rceil>" "real_of_int \<lceil>x\<rceil> < x + 1"
    by linarith+
  then have "\<bar>real_of_int \<lceil>x\<rceil> - x\<bar> < 1"
    by linarith
  with False show ?thesis
    by (simp only: round_toward_zero_def if_False)
qed

lemma pulses_per_degree_pos:
  assumes "0 < encoder_pulses_per_rev info"
  shows "0 < pulses_per_degree info"
proof -
  have "0 < unat (encoder_pulses_per_rev info)"
    using assms by (simp add: unat_gt_0 word_greater_zero_iff)
  then have "(0 :: real) < real (unat (encoder_pulses_per_rev info))"
    by (simp only: of_nat_0_less_iff)
  then have "0 < real (unat (encoder_pulses_per_rev info)) / 360"
    by (rule divide_pos_pos) simp
  then show ?thesis
    by (simp only: pulses_per_degree_def)
qed

lemma pulses_per_degree_zero_iff:
  "pulses_per_degree info = 0 \<longleftrightarrow> encoder_pulses_per_rev info = 0"
  by (simp add: pulses_per_degree_def unsigned_eq_0_iff)

text \<open>
  Claim C5. For an axis with \<open>encoder_pulses_per_rev > 0\<close> and
  \<open>pulses_per_degree = encoder_pulses_per_rev / 360\<close>: pulses to degrees is defined and
  loses nothing (converting the degrees back gives the pulses again, and different pulse
  counts give different degrees); degrees to pulses
  rounds toward zero (the result is no larger in magnitude than the exact product, less
  than 1 away from it and of its sign); and the round trip of a degree value \<open>d\<close>
  through pulses differs from \<open>d\<close> by at most \<open>1 / pulses_per_degree\<close>.
\<close>

theorem C5_degree_conversions:
  assumes "0 < encoder_pulses_per_rev info"
  shows "pulses_per_degree info = real (unat (encoder_pulses_per_rev info)) / 360
    \<and> pulses_to_deg info p = Inr (real_of_int p / pulses_per_degree info)
    \<and> deg_to_pulses info (real_of_int p / pulses_per_degree info) = p
    \<and> (pulses_to_deg info p = pulses_to_deg info q) = (p = q)
    \<and> \<bar>real_of_int (deg_to_pulses info d)\<bar> \<le> \<bar>d * pulses_per_degree info\<bar>
    \<and> \<bar>real_of_int (deg_to_pulses info d) - d * pulses_per_degree info\<bar> < 1
    \<and> 0 \<le> real_of_int (deg_to_pulses info d) * (d * pulses_per_degree info)
    \<and> pulses_to_deg info (deg_to_pulses info d) =
        Inr (real_of_int (deg_to_pulses info d) / pulses_per_degree info)
    \<and> \<bar>real_of_int (deg_to_pulses info d) / pulses_per_degree info - d\<bar>
        \<le> 1 / pulses_per_degree info"
proof -
  define k where "k = pulses_per_degree info"
  have k: "0 < k"
    unfolding k_def using assms by (rule pulses_per_degree_pos)
  have to_deg: "pulses_to_deg info n = Inr (real_of_int n / k)" for n
    using k by (simp add: pulses_to_deg_def k_def)
  have inj: "(pulses_to_deg info p = pulses_to_deg info q) = (p = q)"
    using k by (simp add: to_deg)
  have "real_of_int p / k * k = real_of_int p"
    using k by simp
  then have lossless: "deg_to_pulses info (real_of_int p / k) = p"
    by (simp add: deg_to_pulses_def k_def [symmetric] round_toward_zero_of_int)
  define r where "r = real_of_int (deg_to_pulses info d)"
  have r: "r = real_of_int (round_toward_zero (d * k))"
    by (simp add: r_def deg_to_pulses_def k_def)
  have close: "\<bar>r - d * k\<bar> < 1"
    unfolding r by (rule round_toward_zero_close)
  have "r / k - d = (r - d * k) / k"
    using k by (simp add: field_simps)
  then have "\<bar>r / k - d\<bar> = \<bar>r - d * k\<bar> / k"
    using k by simp
  also have "\<dots> \<le> 1 / k"
    using close k by (simp add: divide_right_mono)
  finally have trip: "\<bar>r / k - d\<bar> \<le> 1 / k" .
  have mag: "\<bar>r\<bar> \<le> \<bar>d * k\<bar>"
    unfolding r by (rule round_toward_zero_magnitude)
  have sgn: "0 \<le> r * (d * k)"
    unfolding r by (rule round_toward_zero_sign)
  show ?thesis
    using to_deg lossless inj mag close sgn trip
    unfolding k_def r_def by (simp add: pulses_per_degree_def)
qed

text \<open>
  The claim at a 20-bit encoder (1048576 pulses per revolution): 524288 pulses are 180
  degrees and back, and \<open>- 1 / 3\<close> of a degree is rounded toward zero to -970 pulses,
  within one pulse's worth of degrees.
\<close>

theorem C5_degree_conversions_witness:
  "0 < encoder_pulses_per_rev
         \<lparr>encoder_pulses_per_rev = 1048576, dev_name = [], hw_version = [], sw_version = []\<rparr>
   \<and> pulses_to_deg
         \<lparr>encoder_pulses_per_rev = 1048576, dev_name = [], hw_version = [], sw_version = []\<rparr>
         524288 = Inr 180
   \<and> deg_to_pulses
         \<lparr>encoder_pulses_per_rev = 1048576, dev_name = [], hw_version = [], sw_version = []\<rparr>
         180 = 524288
   \<and> deg_to_pulses
         \<lparr>encoder_pulses_per_rev = 1048576, dev_name = [], hw_version = [], sw_version = []\<rparr>
         (- 1 / 3) = - 970
   \<and> \<bar>real_of_int (- 970) / (1048576 / 360) - (- 1 / 3)\<bar> \<le> 1 / (1048576 / 360)"
  using C5_degree_conversions
    [of "\<lparr>encoder_pulses_per_rev = 1048576, dev_name = [], hw_version = [], sw_version = []\<rparr>"
      524288 524288 "- 1 / 3"]
  by (simp add: pulses_per_degree_def deg_to_pulses_def round_toward_zero_def)

subsection \<open>CycleTimeInfo\<close>

lemma uint64_max_unat: "unat uint64_max = 2 ^ 64 - 1"
  by (simp add: uint64_max_def)

lemma uint64_max_greatest: "w \<le> uint64_max"
proof -
  have "unat w < 2 ^ 64"
    using unsigned_less [of w, where ?'a = nat] by simp
  then have "unat w \<le> unat uint64_max"
    by (simp add: uint64_max_unat)
  then show ?thesis
    by (simp add: word_le_nat_alt)
qed

text \<open>
  Claim C7. A freshly constructed \<open>CycleTimeInfo\<close> has \<open>latency_min_ns\<close>,
  \<open>period_min_ns\<close> and \<open>exec_min_ns\<close> equal to the largest \<open>uint64_t\<close> value,
  \<open>2 ^ 64 - 1\<close>, which no 64-bit value exceeds; its current and maximum fields for
  period, execution time and latency are 0.
\<close>

theorem C7_CycleTimeInfo_ctor:
  "unat (latency_min_ns CycleTimeInfo_ctor) = 2 ^ 64 - 1
   \<and> unat (period_min_ns CycleTimeInfo_ctor) = 2 ^ 64 - 1
   \<and> unat (exec_min_ns CycleTimeInfo_ctor) = 2 ^ 64 - 1
   \<and> (\<forall>w :: uint64_t. w \<le> latency_min_ns CycleTimeInfo_ctor
          \<and> w \<le> period_min_ns CycleTimeInfo_ctor
          \<and> w \<le> exec_min_ns CycleTimeInfo_ctor)
   \<and> period_ns CycleTimeInfo_ctor = 0
   \<and> exec_ns CycleTimeInfo_ctor = 0
   \<and> latency_ns CycleTimeInfo_ctor = 0
   \<and> latency_max_ns CycleTimeInfo_ctor = 0
   \<and> period_max_ns CycleTimeInfo_ctor = 0
   \<and> exec_max_ns CycleTimeInfo_ctor = 0"
  by (simp add: CycleTimeInfo_ctor_def uint64_max_unat uint64_max_greatest)

subsection \<open>The axis enumeration\<close>

lemma Axis_enumerators_eq:
  "Axis_enumerators =
     [(''AXIS_NONE'', - 1), (''AXIS_MIN'', 0), (''AZIMUTH_AXIS'', 0),
      (''ELEVATION_AXIS'', 1), (''AXIS_COUNT'', 2)]"
  by (simp add: Axis_enumerators_def Axis_decl_def)

lemma Axis_values:
  "AXIS_NONE = - 1" "AXIS_MIN = 0" "AZIMUTH_AXIS = 0" "ELEVATION_AXIS = 1" "AXIS_COUNT = 2"
  by (simp_all add: AXIS_NONE_def AXIS_MIN_def AZIMUTH_AXIS_def ELEVATION_AXIS_def
      AXIS_COUNT_def)

lemma for_each_axis_unfold:
  "for_each_axis body s = body ELEVATION_AXIS (body AZIMUTH_AXIS s)"
  by (simp add: for_each_axis_def Axis_values)

text \<open>
  The enumeration \<open>Axis\<close> has five enumerators, not two: beside \<open>AZIMUTH_AXIS\<close> and
  \<open>ELEVATION_AXIS\<close> it declares \<open>AXIS_NONE = -1\<close>, a value that is neither axis, and
  the bounds \<open>AXIS_MIN\<close> and \<open>AXIS_COUNT\<close>.
\<close>

theorem C8_Axis_more_than_two_enumerators:
  "length Axis_enumerators = 5
   \<and> (''AXIS_NONE'', - 1) \<in> set Axis_enumerators
   \<and> AXIS_NONE \<notin> {AZIMUTH_AXIS, ELEVATION_AXIS}
   \<and> set (map snd Axis_enumerators) \<noteq> {AZIMUTH_AXIS, ELEVATION_AXIS}"
proof -
  have "(- 1 :: int) \<in> set (map snd Axis_enumerators)"
    by (simp add: Axis_enumerators_eq)
  moreover have "(- 1 :: int) \<notin> {AZIMUTH_AXIS, ELEVATION_AXIS}"
    by (simp add: Axis_values)
  ultimately have "set (map snd Axis_enumerators) \<noteq> {AZIMUTH_AXIS, ELEVATION_AXIS}"
    by metis
  then show ?thesis
    by (simp add: Axis_enumerators_eq Axis_values)
qed

text \<open>
  Claim C8, amended. The enumeration \<open>Axis\<close> names two axes, \<open>AZIMUTH_AXIS = 0\<close> and
  \<open>ELEVATION_AXIS = 1\<close>, and beside them \<open>AXIS_NONE = -1\<close>, \<open>AXIS_MIN = 0\<close> and
  \<open>AXIS_COUNT = 2\<close>. The axes from \<open>AXIS_MIN\<close> up to \<open>AXIS_COUNT\<close> are exactly these
  two, and every loop over them runs its body for azimuth first and for elevation next.
\<close>

theorem C8_Axis_enumeration:
  "Axis_enumerators =
     [(''AXIS_NONE'', AXIS_NONE), (''AXIS_MIN'', AXIS_MIN), (''AZIMUTH_AXIS'', AZIMUTH_AXIS),
      (''ELEVATION_AXIS'', ELEVATION_AXIS), (''AXIS_COUNT'', AXIS_COUNT)]
   \<and> AXIS_NONE = - 1 \<and> AXIS_MIN = AZIMUTH_AXIS \<and> AZIMUTH_AXIS = 0
   \<and> ELEVATION_AXIS = 1 \<and> AXIS_COUNT = 2
   \<and> {a. AXIS_MIN \<le> a \<and> a < AXIS_COUNT} = {AZIMUTH_AXIS, ELEVATION_AXIS}
   \<and> for_each_axis body s = body ELEVATION_AXIS (body AZIMUTH_AXIS s)
   \<and> for_each_axis (\<lambda>a visited. visited @ [a]) [] = [AZIMUTH_AXIS, ELEVATION_AXIS]"
proof -
  have "{a. AXIS_MIN \<le> a \<and> a < AXIS_COUNT} = {AZIMUTH_AXIS, ELEVATION_AXIS}"
    by (auto simp add: Axis_values)
  then show ?thesis
    by (simp add: Axis_enumerators_eq for_each_axis_unfold) (simp add: Axis_values)
qed

subsection \<open>Default-constructed status and info\<close>

text \<open>
  Claim C9. A default-constructed \<open>SystemStatus\<close> of drives.h has the state
  \<open>SYSTEM_OFF\<close>, an empty error string and two default-constructed axis statuses; a
  default-constructed \<open>AxisStatus\<close> has the state \<open>AXIS_OFF\<close> and its three positions,
  three velocities, torque and error code equal to 0, whatever its statusword holds.
\<close>

theorem C9_default_constructed_status:
  "Control_SystemStatus.state (Control_SystemStatus_ctor sw_az sw_el) = SystemState_SYSTEM_OFF
   \<and> error_str (Control_SystemStatus_ctor sw_az sw_el) = []
   \<and> azimuth (Control_SystemStatus_ctor sw_az sw_el) = Control_AxisStatus_ctor sw_az
   \<and> elevation (Control_SystemStatus_ctor sw_az sw_el) = Control_AxisStatus_ctor sw_el
   \<and> Control_AxisStatus.state (Control_AxisStatus_ctor sw) = AxisState_AXIS_OFF
   \<and> target_position (Control_AxisStatus_ctor sw) = 0
   \<and> cur_position (Control_AxisStatus_ctor sw) = 0
   \<and> demand_position (Control_AxisStatus_ctor sw) = 0
   \<and> target_velocity (Control_AxisStatus_ctor sw) = 0
   \<and> cur_velocity (Control_AxisStatus_ctor sw) = 0
   \<and> demand_velocity (Control_AxisStatus_ctor sw) = 0
   \<and> cur_torque (Control_AxisStatus_ctor sw) = 0
   \<and> Control_AxisStatus.error_code (Control_AxisStatus_ctor sw) = 0"
  by (simp add: Control_SystemStatus_ctor_def Control_AxisStatus_ctor_def)

text \<open>
  Claim C10. A default-constructed \<open>AxisInfo\<close> has \<open>encoder_pulses_per_rev = 0\<close>, so
  its \<open>pulses_per_degree\<close> is 0, converting any pulse count to degrees divides by
  zero and every degree value converts to 0 pulses. For any \<open>AxisInfo\<close>, pulses to
  degrees divides by zero exactly when \<open>encoder_pulses_per_rev\<close> is 0, and has a
  value exactly when it is positive.
\<close>

theorem C10_default_AxisInfo:
  "encoder_pulses_per_rev AxisInfo_ctor = 0
   \<and> pulses_per_degree AxisInfo_ctor = 0
   \<and> pulses_to_deg AxisInfo_ctor p = Inl DivisionByZero
   \<and> deg_to_pulses AxisInfo_ctor d = 0
   \<and> (pulses_to_deg info p = Inl DivisionByZero) = (encoder_pulses_per_rev info = 0)
   \<and> (\<exists>x. pulses_to_deg info p = Inr x) = (0 < encoder_pulses_per_rev info)"
proof -
  have zero: "pulses_per_degree AxisInfo_ctor = 0"
    by (simp add: pulses_per_degree_zero_iff AxisInfo_ctor_def)
  then have "deg_to_pulses AxisInfo_ctor d = 0"
    by (simp add: deg_to_pulses_def round_toward_zero_def)
  with zero show ?thesis
    by (simp add: AxisInfo_ctor_def pulses_to_deg_def pulses_per_degree_zero_iff
        word_greater_zero_iff)
qed

end
